theory Spec2Isabelle
  imports Main
begin

section \<open>Strings\<close>

text \<open>
  Strings are byte strings holding the UTF-8 encoding of the source's text, so the
  emoji and bullets of the replies are written as their bytes. Every needle the handlers
  search for is ASCII, and the search is a plain substring search as
  \<^verbatim>\<open>String.prototype.includes\<close> is.
\<close>

fun starts_with :: "string \<Rightarrow> string \<Rightarrow> bool" where
  "starts_with s [] = True"
| "starts_with [] (c # cs) = False"
| "starts_with (x # xs) (c # cs) = (x = c \<and> starts_with xs cs)"

fun str_includes :: "string \<Rightarrow> string \<Rightarrow> bool" where
  "str_includes [] sub = (sub = [])"
| "str_includes (x # xs) sub = (starts_with (x # xs) sub \<or> str_includes xs sub)"

text \<open>
  \<^verbatim>\<open>String.prototype.toLowerCase\<close> on UTF-8 text, as far as it can change where an ASCII
  letter stands: the ASCII capitals, U+212A KELVIN SIGN, which becomes \<open>k\<close>, and U+0130
  LATIN CAPITAL LETTER I WITH DOT ABOVE, which becomes \<open>i\<close> followed by U+0307. JavaScript
  maps every other letter outside ASCII to letters outside ASCII; their bytes are kept
  here, and no occurrence of an ASCII needle depends on them.
\<close>

definition lower_char :: "char \<Rightarrow> char" where
  "lower_char c =
     (let n = (of_char c :: nat) in if 65 \<le> n \<and> n \<le> 90 then char_of (n + 32) else c)"

definition kelvin_sign :: string where
  "kelvin_sign = [CHR 0xE2, CHR 0x84, CHR 0xAA]"

definition capital_i_dot :: string where
  "capital_i_dot = [CHR 0xC4, CHR 0xB0]"

definition combining_dot :: string where
  "combining_dot = [CHR 0xCC, CHR 0x87]"

fun toLowerCase :: "string \<Rightarrow> string" where
  "toLowerCase [] = []"
| "toLowerCase (c # cs) =
     (if starts_with (c # cs) kelvin_sign then CHR ''k'' # toLowerCase (drop 2 cs)
      else if starts_with (c # cs) capital_i_dot then
        CHR ''i'' # combining_dot @ toLowerCase (drop 1 cs)
      else lower_char c # toLowerCase cs)"

text \<open>JavaScript truthiness of an optional string: present and not empty.\<close>

fun truthy :: "string option \<Rightarrow> bool" where
  "truthy None = False"
| "truthy (Some s) = (s \<noteq> [])"

text \<open>\<^verbatim>\<open>a || b\<close> on optional strings with a string default.\<close>

fun or_else :: "string option \<Rightarrow> string \<Rightarrow> string" where
  "or_else None d = d"
| "or_else (Some s) d = (if s = [] then d else s)"

section \<open>Payloads\<close>

datatype text_object = PlainText string | Mrkdwn string

datatype select_option = SelectOption text_object string

datatype element =
    PlainTextInput string text_object bool
  | StaticSelect string text_object "select_option list"
  | UsersSelect string text_object

datatype block =
    Section text_object
  | Context "text_object list"
  | Header text_object
  | Divider
  | Input string text_object element bool

datatype message = Text string | Blocks "block list"

record view =
  view_callback_id :: "string option"
  view_title :: text_object
  view_submit :: "text_object option"
  view_close :: "text_object option"
  view_blocks :: "block list"

section \<open>Inbound events\<close>

record message_event =
  msg_text :: "string option"
  msg_subtype :: "string option"
  msg_bot_id :: "string option"
  msg_channel :: string
  msg_user :: string
  msg_ts :: string

record app_mention_event =
  mention_text :: string
  mention_user :: string
  mention_channel :: string
  mention_ts :: string

record slash_command =
  cmd_text :: string
  cmd_user_id :: string
  cmd_channel_id :: string

record interaction_body =
  body_trigger_id :: string

section \<open>The platform and the effects of a handler\<close>

datatype error = Error string

record channel_obj =
  is_im :: "bool option"

record conversations_info_response =
  info_channel :: "channel_obj option"

record user_obj =
  real_name :: "string option"
  name :: "string option"

record users_info_response =
  info_user :: "user_obj option"

text \<open>
  One call to the platform. \<open>Say\<close> is the framework's \<^verbatim>\<open>say\<close>, which the framework
  binds to the channel of the inbound event: it carries that channel, the message and the
  \<^verbatim>\<open>thread_ts\<close> when one is given.
\<close>

datatype api_call =
    Ack
  | ConversationsInfo string
  | UsersInfo string
  | Say string message "string option"
  | ReactionsAdd string string string
  | ViewsOpen string view

text \<open>An effect is a call with its outcome (\<open>Some e\<close>: it threw \<open>e\<close>) or a line of
  \<^verbatim>\<open>console.error\<close>.\<close>

datatype effect = Call api_call "error option" | ConsoleError string error

text \<open>The platform decides the outcome of every call.\<close>

record platform =
  ack_result :: "error + unit"
  conversations_info :: "string \<Rightarrow> error + conversations_info_response"
  users_info :: "string \<Rightarrow> error + users_info_response"
  say_result :: "string \<Rightarrow> message \<Rightarrow> string option \<Rightarrow> error + unit"
  reactions_add :: "string \<Rightarrow> string \<Rightarrow> string \<Rightarrow> error + unit"
  views_open :: "string \<Rightarrow> view \<Rightarrow> error + unit"

text \<open>
  A handler run is the trace of its effects and how its promise settles: \<open>Inr\<close> resolved,
  \<open>Inl e\<close> rejected with \<open>e\<close>.
\<close>

type_synonym 'a io = "effect list \<times> (error + 'a)"

definition return_io :: "'a \<Rightarrow> 'a io" where
  "return_io x = ([], Inr x)"

definition bind_io :: "'a io \<Rightarrow> ('a \<Rightarrow> 'b io) \<Rightarrow> 'b io" where
  "bind_io m f =
     (case m of
        (tr, Inl e) \<Rightarrow> (tr, Inl e)
      | (tr, Inr x) \<Rightarrow> (case f x of (tr', r) \<Rightarrow> (tr @ tr', r)))"

definition try_catch :: "'a io \<Rightarrow> (error \<Rightarrow> 'a io) \<Rightarrow> 'a io" where
  "try_catch m h =
     (case m of
        (tr, Inl e) \<Rightarrow> (case h e of (tr', r) \<Rightarrow> (tr @ tr', r))
      | (tr, Inr x) \<Rightarrow> (tr, Inr x))"

fun outcome :: "error + 'a \<Rightarrow> error option" where
  "outcome (Inl e) = Some e"
| "outcome (Inr x) = None"

definition perform :: "api_call \<Rightarrow> error + 'a \<Rightarrow> 'a io" where
  "perform c r = ([Call c (outcome r)], r)"

definition console_error :: "string \<Rightarrow> error \<Rightarrow> unit io" where
  "console_error msg e = ([ConsoleError msg e], Inr ())"

definition ack :: "platform \<Rightarrow> unit io" where
  "ack p = perform Ack (ack_result p)"

definition client_conversations_info :: "platform \<Rightarrow> string \<Rightarrow> conversations_info_response io" where
  "client_conversations_info p ch = perform (ConversationsInfo ch) (conversations_info p ch)"

definition client_users_info :: "platform \<Rightarrow> string \<Rightarrow> users_info_response io" where
  "client_users_info p u = perform (UsersInfo u) (users_info p u)"

definition say :: "platform \<Rightarrow> string \<Rightarrow> message \<Rightarrow> string option \<Rightarrow> unit io" where
  "say p ch m th = perform (Say ch m th) (say_result p ch m th)"

definition client_reactions_add :: "platform \<Rightarrow> string \<Rightarrow> string \<Rightarrow> string \<Rightarrow> unit io" where
  "client_reactions_add p ch nm t = perform (ReactionsAdd ch nm t) (reactions_add p ch nm t)"

definition client_views_open :: "platform \<Rightarrow> string \<Rightarrow> view \<Rightarrow> unit io" where
  "client_views_open p trig v = perform (ViewsOpen trig v) (views_open p trig v)"

section \<open>The message handler (listeners/events/message.ts)\<close>

definition wave :: string where
  "wave = [CHR 0xF0, CHR 0x9F, CHR 0x91, CHR 0x8B]"

definition robot :: string where
  "robot = [CHR 0xF0, CHR 0x9F, CHR 0xA4, CHR 0x96]"

definition bullet :: string where
  "bullet = [CHR 0xE2, CHR 0x80, CHR 0xA2]"

definition dm_greeting :: "string \<Rightarrow> string" where
  "dm_greeting user = ''Hello <@'' @ user @ ''>! '' @ wave @ '' How can I assist you today?''"

definition dm_help :: string where
  "dm_help =
     ''I can help you with various tasks! Try these commands:\<newline>'' @
     bullet @ '' `/hello` - Get a greeting\<newline>'' @
     bullet @ '' `/ping` - Check bot status\<newline>'' @
     bullet @ '' `/help` - See all commands\<newline>\<newline>'' @
     ''You can also just chat with me here in DM!''"

definition dm_how_are_you :: string where
  "dm_how_are_you =
     ''I'' @ [CHR 0x27] @ ''m doing great! Thanks for asking. How can I help you today? '' @ robot"

definition msg_keywords :: "string list" where
  "msg_keywords = [''urgent'', ''emergency'', ''important'', ''asap'']"

text \<open>\<^verbatim>\<open>channelInfo.channel?.is_im\<close> as a condition: the channel is there and the flag
  is true.\<close>

fun channel_is_im :: "conversations_info_response \<Rightarrow> bool" where
  "channel_is_im r =
     (case info_channel r of
        None \<Rightarrow> False
      | Some c \<Rightarrow> (case is_im c of None \<Rightarrow> False | Some b \<Rightarrow> b))"

definition messageEvent :: "platform \<Rightarrow> message_event \<Rightarrow> unit io" where
  "messageEvent p event =
     try_catch
       (case msg_text event of
          None \<Rightarrow> return_io ()
        | Some text \<Rightarrow>
            if text = [] then return_io ()
            else if truthy (msg_subtype event) then return_io ()
            else if truthy (msg_bot_id event) then return_io ()
            else
              bind_io (client_conversations_info p (msg_channel event)) (\<lambda>channelInfo.
                if channel_is_im channelInfo then
                  (let lowerText = toLowerCase text in
                   if str_includes lowerText ''hello'' \<or> str_includes lowerText ''hi'' then
                     say p (msg_channel event) (Text (dm_greeting (msg_user event)))
                       (Some (msg_ts event))
                   else if str_includes lowerText ''help'' then
                     say p (msg_channel event) (Text dm_help) (Some (msg_ts event))
                   else if str_includes lowerText ''how are you'' then
                     say p (msg_channel event) (Text dm_how_are_you) (Some (msg_ts event))
                   else return_io ())
                else
                  (let hasKeyword =
                         list_ex (\<lambda>keyword. str_includes (toLowerCase text) keyword)
                           msg_keywords
                   in
                   if hasKeyword then
                     bind_io
                       (client_reactions_add p (msg_channel event) ''eyes'' (msg_ts event))
                       (\<lambda>_. client_reactions_add p (msg_channel event) ''warning''
                               (msg_ts event))
                   else return_io ())))
       (\<lambda>error. console_error ''Error handling message event:'' error)"

section \<open>The mention handler (listeners/events/app-mention.ts)\<close>

definition green_circle :: string where
  "green_circle = [CHR 0xF0, CHR 0x9F, CHR 0x9F, CHR 0xA2]"

definition smile :: string where
  "smile = [CHR 0xF0, CHR 0x9F, CHR 0x98, CHR 0x8A]"

definition mention_help :: "string \<Rightarrow> string" where
  "mention_help user =
     ''Hi <@'' @ user @ ''>! I can help you with:\<newline>'' @
     bullet @ '' `/hello` - Get a greeting\<newline>'' @
     bullet @ '' `/ping` - Check my response time\<newline>'' @
     bullet @ '' `/help` - Show all available commands''"

definition mention_status :: "string \<Rightarrow> string" where
  "mention_status user =
     ''I'' @ [CHR 0x27] @ ''m online and ready to help, <@'' @ user @ ''>! '' @ green_circle"

definition mention_thanks :: "string \<Rightarrow> string" where
  "mention_thanks user =
     ''You'' @ [CHR 0x27] @ ''re welcome, <@'' @ user @ ''>! Happy to help! '' @ smile"

definition mention_default :: "string \<Rightarrow> string" where
  "mention_default user =
     ''Hi <@'' @ user @ ''>! You mentioned me. How can I help you today?\<newline>'' @
     ''_Try asking for '' @ [CHR 0x22] @ ''help'' @ [CHR 0x22] @ '' or '' @
     [CHR 0x22] @ ''status'' @ [CHR 0x22] @ ''_''"

definition appMentionEvent :: "platform \<Rightarrow> app_mention_event \<Rightarrow> unit io" where
  "appMentionEvent p event =
     try_catch
       (let messageText = toLowerCase (mention_text event);
            response =
              (if str_includes messageText ''help'' then mention_help (mention_user event)
               else if str_includes messageText ''status'' then
                 mention_status (mention_user event)
               else if str_includes messageText ''thank'' then
                 mention_thanks (mention_user event)
               else mention_default (mention_user event))
        in say p (mention_channel event) (Text response) (Some (mention_ts event)))
       (\<lambda>error. console_error ''Error handling app mention:'' error)"

section \<open>The slash commands (listeners/commands/hello.ts, ping.ts)\<close>

definition hello_blocks :: "string \<Rightarrow> slash_command \<Rightarrow> block list" where
  "hello_blocks userName command =
     [Section (Mrkdwn (''Hello *'' @ userName @ ''*! '' @ wave)),
      Section (Mrkdwn (''You called the `/hello` command from <#'' @
                       cmd_channel_id command @ ''>'')),
      Context [Mrkdwn (''_Command text: '' @ [CHR 0x22] @
                       (if cmd_text command = [] then ''none'' else cmd_text command) @
                       [CHR 0x22] @ ''_'')]]"

definition hello_sorry :: string where
  "hello_sorry = ''Sorry, something went wrong with the hello command.''"

text \<open>\<^verbatim>\<open>userInfo.user?.real_name || userInfo.user?.name || 'there'\<close>\<close>

definition userName_of :: "users_info_response \<Rightarrow> string" where
  "userName_of userInfo =
     (case info_user userInfo of
        None \<Rightarrow> ''there''
      | Some u \<Rightarrow> or_else (real_name u) (or_else (name u) ''there''))"

definition helloCommand :: "platform \<Rightarrow> slash_command \<Rightarrow> unit io" where
  "helloCommand p command =
     bind_io (ack p) (\<lambda>_.
       try_catch
         (bind_io (client_users_info p (cmd_user_id command)) (\<lambda>userInfo.
            let userName = userName_of userInfo
            in say p (cmd_channel_id command) (Blocks (hello_blocks userName command)) None))
         (\<lambda>error.
            bind_io (console_error ''Error in hello command:'' error) (\<lambda>_.
              say p (cmd_channel_id command) (Text hello_sorry) None)))"

text \<open>Decimal rendering of a number in a template literal.\<close>

fun show_nat :: "nat \<Rightarrow> string" where
  "show_nat n =
     (if n < 10 then [char_of (48 + n)]
      else show_nat (n div 10) @ [char_of (48 + n mod 10)])"

declare show_nat.simps [simp del]

definition show_int :: "int \<Rightarrow> string" where
  "show_int i = (if i < 0 then ''-'' @ show_nat (nat (- i)) else show_nat (nat i))"

definition ping_pong :: string where
  "ping_pong = [CHR 0xF0, CHR 0x9F, CHR 0x8F, CHR 0x93]"

definition ping_blocks :: "int \<Rightarrow> slash_command \<Rightarrow> block list" where
  "ping_blocks ackTime command =
     [Section (Mrkdwn (ping_pong @ '' *Pong!*'')),
      Context [Mrkdwn (''Response time: '' @ show_int ackTime @ ''ms | User: <@'' @
                       cmd_user_id command @ ''>'')]]"

text \<open>
  The ping handler reads the clock (milliseconds) before and after the acknowledgement:
  \<open>startTime\<close> and \<open>ackedAt\<close> are the two readings of \<^verbatim>\<open>Date.now()\<close>. Nothing orders
  them, so the difference may be negative.
\<close>

definition pingCommand :: "platform \<Rightarrow> int \<Rightarrow> int \<Rightarrow> slash_command \<Rightarrow> unit io" where
  "pingCommand p startTime ackedAt command =
     bind_io (ack p) (\<lambda>_.
       let ackTime = ackedAt - startTime
       in say p (cmd_channel_id command) (Blocks (ping_blocks ackTime command)) None)"

section \<open>The shortcut and the button that open a modal
  (listeners/shortcuts/create-task.ts, listeners/actions/view-help.ts)\<close>

definition red_circle :: string where
  "red_circle = [CHR 0xF0, CHR 0x9F, CHR 0x94, CHR 0xB4]"

definition yellow_circle :: string where
  "yellow_circle = [CHR 0xF0, CHR 0x9F, CHR 0x9F, CHR 0xA1]"

definition task_modal :: view where
  "task_modal =
     \<lparr>view_callback_id = Some ''task_modal'',
      view_title = PlainText ''Create New Task'',
      view_submit = Some (PlainText ''Create''),
      view_close = Some (PlainText ''Cancel''),
      view_blocks =
        [Input ''task_title'' (PlainText ''Task Title'')
           (PlainTextInput ''title_input'' (PlainText ''Enter task title'') False) False,
         Input ''task_description'' (PlainText ''Description'')
           (PlainTextInput ''description_input'' (PlainText ''Describe your task'') True) True,
         Input ''task_priority'' (PlainText ''Priority'')
           (StaticSelect ''priority_select'' (PlainText ''Select priority'')
              [SelectOption (PlainText (red_circle @ '' High'')) ''high'',
               SelectOption (PlainText (yellow_circle @ '' Medium'')) ''medium'',
               SelectOption (PlainText (green_circle @ '' Low'')) ''low'']) False,
         Input ''task_assignee'' (PlainText ''Assign To'')
           (UsersSelect ''assignee_select'' (PlainText ''Select a user'')) True]\<rparr>"

definition createTaskShortcut :: "platform \<Rightarrow> interaction_body \<Rightarrow> unit io" where
  "createTaskShortcut p body =
     bind_io (ack p) (\<lambda>_.
       try_catch
         (client_views_open p (body_trigger_id body) task_modal)
         (\<lambda>error. console_error ''Error opening task modal:'' error))"

definition memo :: string where
  "memo = [CHR 0xF0, CHR 0x9F, CHR 0x93, CHR 0x9D]"

definition speech_balloon :: string where
  "speech_balloon = [CHR 0xF0, CHR 0x9F, CHR 0x92, CHR 0xAC]"

definition dart :: string where
  "dart = [CHR 0xF0, CHR 0x9F, CHR 0x8E, CHR 0xAF]"

definition help_modal :: view where
  "help_modal =
     \<lparr>view_callback_id = None,
      view_title = PlainText ''Bot Help Guide'',
      view_submit = None,
      view_close = Some (PlainText ''Close''),
      view_blocks =
        [Header (PlainText ''Welcome to Solvook Bot!''),
         Section (Mrkdwn ''This bot helps you with various tasks in your Slack workspace.''),
         Divider,
         Section (Mrkdwn (''*'' @ memo @ '' Slash Commands*'')),
         Section (PlainText
           (bullet @ '' /hello - Receive a personalized greeting\<newline>'' @
            bullet @ '' /ping - Test bot responsiveness\<newline>'' @
            bullet @ '' /help - Display available commands'')),
         Divider,
         Section (Mrkdwn (''*'' @ speech_balloon @ '' Interactions*'')),
         Section (PlainText
           (bullet @ '' Mention the bot to get its attention\<newline>'' @
            bullet @ '' Send direct messages for private help\<newline>'' @
            bullet @ '' The bot reacts to urgent keywords'')),
         Divider,
         Section (Mrkdwn (''*'' @ dart @ '' Tips*'')),
         Section (PlainText
           (bullet @ '' Use thread replies to keep conversations organized\<newline>'' @
            bullet @ '' Check bot status with '' @ [CHR 0x22] @ ''status'' @ [CHR 0x22] @
              '' mentions\<newline>'' @
            bullet @ '' Get quick help by typing '' @ [CHR 0x22] @ ''help'' @ [CHR 0x22] @
              '' in DM''))]\<rparr>"

definition viewHelpAction :: "platform \<Rightarrow> interaction_body \<Rightarrow> unit io" where
  "viewHelpAction p body =
     bind_io (ack p) (\<lambda>_.
       try_catch
         (client_views_open p (body_trigger_id body) help_modal)
         (\<lambda>error. console_error ''Error opening help modal:'' error))"

section \<open>Reading a trace\<close>

fun calls :: "effect list \<Rightarrow> api_call list" where
  "calls [] = []"
| "calls (Call c r # tr) = c # calls tr"
| "calls (ConsoleError msg e # tr) = calls tr"

fun is_post :: "api_call \<Rightarrow> bool" where
  "is_post (Say ch m th) = True"
| "is_post c = False"

fun is_reaction :: "api_call \<Rightarrow> bool" where
  "is_reaction (ReactionsAdd ch nm t) = True"
| "is_reaction c = False"

fun is_open_modal :: "api_call \<Rightarrow> bool" where
  "is_open_modal (ViewsOpen trig v) = True"
| "is_open_modal c = False"

text \<open>The outbound actions of a run: messages posted, reactions added, modals opened.
  Acknowledgements and lookups are not outbound actions.\<close>

definition outbound :: "effect list \<Rightarrow> api_call list" where
  "outbound tr = filter (\<lambda>c. is_post c \<or> is_reaction c \<or> is_open_modal c) (calls tr)"

definition replies :: "effect list \<Rightarrow> api_call list" where
  "replies tr = filter is_post (calls tr)"

definition reactions :: "effect list \<Rightarrow> api_call list" where
  "reactions tr = filter is_reaction (calls tr)"


text \<open>The error of the first call that failed, and everything the handler did after it.\<close>

fun after_failure :: "effect list \<Rightarrow> (error \<times> effect list) option" where
  "after_failure [] = None"
| "after_failure (Call c (Some e) # tr) = Some (e, tr)"
| "after_failure (x # tr) = after_failure tr"

text \<open>An effect is threaded to timestamp \<open>t\<close>: a posted message has \<open>thread_ts = t\<close>, a
  reaction targets \<open>t\<close>.\<close>

fun threaded_to :: "string \<Rightarrow> effect \<Rightarrow> bool" where
  "threaded_to t (Call (Say ch m th) r) = (th = Some t)"
| "threaded_to t (Call (ReactionsAdd ch nm ts) r) = (ts = t)"
| "threaded_to t x = True"

fun text_of :: "text_object \<Rightarrow> string" where
  "text_of (PlainText s) = s"
| "text_of (Mrkdwn s) = s"

fun block_texts :: "block \<Rightarrow> string list" where
  "block_texts (Section t) = [text_of t]"
| "block_texts (Context ts) = map text_of ts"
| "block_texts (Header t) = [text_of t]"
| "block_texts Divider = []"
| "block_texts (Input bid label el opt) = [text_of label]"

fun message_texts :: "message \<Rightarrow> string list" where
  "message_texts (Text s) = [s]"
| "message_texts (Blocks bs) = concat (map block_texts bs)"

text \<open>The content of a message contains \<open>sub\<close>: one of its texts does.\<close>

definition message_contains :: "message \<Rightarrow> string \<Rightarrow> bool" where
  "message_contains m sub = list_ex (\<lambda>t. str_includes t sub) (message_texts m)"

section \<open>The reply rules as the specification words them\<close>

text \<open>
  An ordered list of (predicate, reply) pairs over the lower-cased text; the first pair
  whose predicate holds gives the reply.
\<close>

fun first_match :: "((string \<Rightarrow> bool) \<times> 'a) list \<Rightarrow> string \<Rightarrow> 'a option" where
  "first_match [] t = None"
| "first_match ((pred, reply) # rules) t =
     (if pred t then Some reply else first_match rules t)"

definition dm_rules :: "string \<Rightarrow> ((string \<Rightarrow> bool) \<times> string) list" where
  "dm_rules user =
     [(\<lambda>t. str_includes t ''hello'' \<or> str_includes t ''hi'', dm_greeting user),
      (\<lambda>t. str_includes t ''help'', dm_help),
      (\<lambda>t. str_includes t ''how are you'', dm_how_are_you)]"

definition mention_rules :: "string \<Rightarrow> ((string \<Rightarrow> bool) \<times> string) list" where
  "mention_rules user =
     [(\<lambda>t. str_includes t ''help'', mention_help user),
      (\<lambda>t. str_includes t ''status'', mention_status user),
      (\<lambda>t. str_includes t ''thank'', mention_thanks user),
      (\<lambda>t. True, mention_default user)]"

text \<open>
  Matching ignores case: \<open>w\<close> is a case variant of a needle when each of its characters is
  the needle's character or the ASCII capital of it.
\<close>

definition same_letter :: "char \<Rightarrow> char \<Rightarrow> bool" where
  "same_letter c d =
     (c = d \<or> (65 \<le> (of_char c :: nat) \<and> (of_char c :: nat) \<le> 90 \<and>
               (of_char d :: nat) = of_char c + 32))"

definition case_variant :: "string \<Rightarrow> string \<Rightarrow> bool" where
  "case_variant w needle = list_all2 same_letter w needle"

definition is_ascii :: "char \<Rightarrow> bool" where
  "is_ascii c = ((of_char c :: nat) < 128)"

text \<open>A needle character: ASCII and not a capital.\<close>

definition plain :: "char \<Rightarrow> bool" where
  "plain d = (is_ascii d \<and> \<not> (65 \<le> (of_char d :: nat) \<and> (of_char d :: nat) \<le> 90))"

text \<open>The needles of the reply rules.\<close>

definition reply_needles :: "string list" where
  "reply_needles = [''hello'', ''hi'', ''help'', ''how are you'', ''status'', ''thank'']"

section \<open>Sample platforms and events\<close>

text \<open>
  A platform on which every call succeeds, except that a modal cannot be opened with an
  empty trigger id; \<open>dm\<close> is what the channel lookup answers for \<^verbatim>\<open>is_im\<close>.
\<close>

definition sample_platform :: "bool \<Rightarrow> platform" where
  "sample_platform dm =
     \<lparr>ack_result = Inr (),
      conversations_info = (\<lambda>ch. Inr \<lparr>info_channel = Some \<lparr>is_im = Some dm\<rparr>\<rparr>),
      users_info =
        (\<lambda>u. Inr \<lparr>info_user = Some \<lparr>real_name = Some ''Alice Kim'', name = Some ''alice''\<rparr>\<rparr>),
      say_result = (\<lambda>ch m th. Inr ()),
      reactions_add = (\<lambda>ch nm t. Inr ()),
      views_open =
        (\<lambda>trig v. if trig = [] then Inl (Error ''invalid_arguments'') else Inr ())\<rparr>"

text \<open>A platform that acknowledges and then fails every call.\<close>

definition down_platform :: platform where
  "down_platform =
     \<lparr>ack_result = Inr (),
      conversations_info = (\<lambda>ch. Inl (Error ''service_unavailable'')),
      users_info = (\<lambda>u. Inl (Error ''service_unavailable'')),
      say_result = (\<lambda>ch m th. Inl (Error ''service_unavailable'')),
      reactions_add = (\<lambda>ch nm t. Inl (Error ''service_unavailable'')),
      views_open = (\<lambda>trig v. Inl (Error ''service_unavailable''))\<rparr>"

definition sample_message :: "string \<Rightarrow> message_event" where
  "sample_message text =
     \<lparr>msg_text = Some text, msg_subtype = None, msg_bot_id = None,
      msg_channel = ''C1'', msg_user = ''U1'', msg_ts = ''1700000000.000100''\<rparr>"

definition sample_mention :: "string \<Rightarrow> app_mention_event" where
  "sample_mention text =
     \<lparr>mention_text = text, mention_user = ''U2'', mention_channel = ''C1'',
      mention_ts = ''1700000000.000200''\<rparr>"

definition sample_command :: slash_command where
  "sample_command = \<lparr>cmd_text = [], cmd_user_id = ''U1'', cmd_channel_id = ''C1''\<rparr>"

section \<open>Properties\<close>

lemmas io_defs = try_catch_def bind_io_def return_io_def perform_def console_error_def
  say_def ack_def client_conversations_info_def client_users_info_def
  client_reactions_add_def client_views_open_def

lemma starts_with_iff: "starts_with s sub \<longleftrightarrow> (\<exists>post. s = sub @ post)"
  by (induction s sub rule: starts_with.induct) auto

lemma str_includes_iff: "str_includes s sub \<longleftrightarrow> (\<exists>pre post. s = pre @ sub @ post)"
proof (induction s)
  case Nil
  then show ?case by simp
next
  case (Cons x xs)
  show ?case
  proof
    assume "str_includes (x # xs) sub"
    then consider "starts_with (x # xs) sub" | "str_includes xs sub" by auto
    then show "\<exists>pre post. x # xs = pre @ sub @ post"
    proof cases
      case 1
      then obtain post where "x # xs = sub @ post" by (auto simp: starts_with_iff)
      then have "x # xs = [] @ sub @ post" by simp
      then show ?thesis by blast
    next
      case 2
      then obtain pre post where "xs = pre @ sub @ post" using Cons.IH by auto
      then have "x # xs = (x # pre) @ sub @ post" by simp
      then show ?thesis by blast
    qed
  next
    assume "\<exists>pre post. x # xs = pre @ sub @ post"
    then obtain pre post where eq: "x # xs = pre @ sub @ post" by blast
    show "str_includes (x # xs) sub"
    proof (cases pre)
      case Nil
      with eq have "starts_with (x # xs) sub" by (auto simp: starts_with_iff)
      then show ?thesis by simp
    next
      case (Cons y ys)
      with eq have "xs = ys @ sub @ post" by simp
      then have "str_includes xs sub" using Cons.IH by blast
      then show ?thesis by simp
    qed
  qed
qed

lemma str_includes_middle: "str_includes (a @ b @ c) b"
  by (auto simp: str_includes_iff)

text \<open>Lower-casing and ASCII text.\<close>

lemma is_ascii_not_special:
  "is_ascii a \<Longrightarrow> a \<noteq> CHR 0xE2 \<and> a \<noteq> CHR 0x84 \<and> a \<noteq> CHR 0xAA \<and> a \<noteq> CHR 0xC4 \<and> a \<noteq> CHR 0xB0"
  by (auto simp: is_ascii_def)

lemma toLowerCase_ascii_Cons:
  "is_ascii c \<Longrightarrow> toLowerCase (c # cs) = lower_char c # toLowerCase cs"
  using is_ascii_not_special [of c]
  by (cases cs) (auto simp: kelvin_sign_def capital_i_dot_def)

lemma toLowerCase_ascii_append:
  "list_all is_ascii w \<Longrightarrow> toLowerCase (w @ post) = map lower_char w @ toLowerCase post"
  by (induction w) (simp_all add: toLowerCase_ascii_Cons del: toLowerCase.simps(2))

lemma starts_with_special_append:
  assumes "is_ascii a"
  shows "starts_with (c # cs @ a # r) kelvin_sign = starts_with (c # cs) kelvin_sign"
    and "starts_with (c # cs @ a # r) capital_i_dot = starts_with (c # cs) capital_i_dot"
  using is_ascii_not_special [OF assms]
  by (cases cs; cases "tl cs"; auto simp: kelvin_sign_def capital_i_dot_def)+

lemma toLowerCase_before_ascii:
  "is_ascii a \<Longrightarrow> \<exists>x. toLowerCase (pre @ a # r) = x @ toLowerCase (a # r)"
proof (induction pre rule: toLowerCase.induct)
  case 1
  then show ?case by simp
next
  case (2 c cs)
  note sp = starts_with_special_append [OF \<open>is_ascii a\<close>, of c cs r]
  show ?case
  proof (cases "starts_with (c # cs) kelvin_sign")
    case True
    then obtain post where "cs = [CHR 0x84, CHR 0xAA] @ post"
      by (auto simp: starts_with_iff kelvin_sign_def)
    then have d: "drop 2 (cs @ a # r) = drop 2 cs @ a # r" by simp
    from "2.IH"(1) [OF True "2.prems"] obtain x where
      "toLowerCase (drop 2 cs @ a # r) = x @ toLowerCase (a # r)" by blast
    with True sp d have "toLowerCase ((c # cs) @ a # r) = (CHR ''k'' # x) @ toLowerCase (a # r)"
      by simp
    then show ?thesis by blast
  next
    case False
    show ?thesis
    proof (cases "starts_with (c # cs) capital_i_dot")
      case True
      then obtain post where "cs = [CHR 0xB0] @ post"
        by (auto simp: starts_with_iff capital_i_dot_def)
      then have d: "drop 1 (cs @ a # r) = drop 1 cs @ a # r" by simp
      from "2.IH"(2) [OF False True "2.prems"] obtain x where
        "toLowerCase (drop 1 cs @ a # r) = x @ toLowerCase (a # r)" by blast
      with False True sp d
      have "toLowerCase ((c # cs) @ a # r) =
              (CHR ''i'' # combining_dot @ x) @ toLowerCase (a # r)"
        by simp
      then show ?thesis by blast
    next
      case nodot: False
      from "2.IH"(3) [OF False nodot "2.prems"] obtain x where
        "toLowerCase (cs @ a # r) = x @ toLowerCase (a # r)" by blast
      with False nodot sp
      have "toLowerCase ((c # cs) @ a # r) = (lower_char c # x) @ toLowerCase (a # r)"
        by simp
      then show ?thesis by blast
    qed
  qed
qed

lemma same_letter_lower: "same_letter c (lower_char c)"
  by (simp add: same_letter_def lower_char_def Let_def)

lemma same_letter_plain:
  assumes "same_letter c d" "plain d"
  shows "is_ascii c \<and> lower_char c = d"
proof (cases "c = d")
  case True
  with assms(2) show ?thesis
    by (auto simp: plain_def lower_char_def Let_def)
next
  case False
  with assms(1) have u: "65 \<le> (of_char c :: nat)" "(of_char c :: nat) \<le> 90"
    and d: "(of_char d :: nat) = of_char c + 32"
    by (simp_all add: same_letter_def)
  from d have "char_of (of_char c + 32 :: nat) = char_of (of_char d :: nat)" by simp
  then have "char_of (of_char c + 32 :: nat) = d" by simp
  with u show ?thesis
    by (simp add: is_ascii_def lower_char_def Let_def)
qed

lemma case_variant_plain:
  "case_variant w needle \<Longrightarrow> list_all plain needle \<Longrightarrow>
     list_all is_ascii w \<and> map lower_char w = needle"
  unfolding case_variant_def
  by (induction w needle rule: list_all2_induct) (auto dest: same_letter_plain)

lemma case_variant_found:
  assumes "list_all plain needle" "case_variant w needle" "str_includes t w"
  shows "str_includes (toLowerCase t) needle"
proof -
  from assms(3) obtain pre post where t: "t = pre @ w @ post"
    by (auto simp: str_includes_iff)
  from case_variant_plain [OF assms(2,1)]
  have w: "list_all is_ascii w" "map lower_char w = needle" by simp_all
  show ?thesis
  proof (cases w)
    case Nil
    with w have "needle = []" by simp
    then show ?thesis
      using str_includes_middle [of "[]" "[]" "toLowerCase t"] by simp
  next
    case (Cons a r)
    with w have "is_ascii a" by simp
    from toLowerCase_before_ascii [OF this, of pre "r @ post"] Cons t
    obtain x where "toLowerCase t = x @ toLowerCase (w @ post)" by auto
    with w have "toLowerCase t = x @ needle @ toLowerCase post"
      by (simp add: toLowerCase_ascii_append)
    then show ?thesis by (simp add: str_includes_middle)
  qed
qed

lemma ascii_text_found:
  assumes "list_all is_ascii t" "str_includes (toLowerCase t) needle"
  shows "\<exists>w. case_variant w needle \<and> str_includes t w"
proof -
  from assms(1) have "toLowerCase t = map lower_char t"
    using toLowerCase_ascii_append [of t "[]"] by simp
  with assms(2) obtain pre' post' where "map lower_char t = pre' @ needle @ post'"
    by (auto simp: str_includes_iff)
  then obtain pre rest where r: "t = pre @ rest" "map lower_char rest = needle @ post'"
    by (metis map_eq_append_conv)
  then obtain w post where "rest = w @ post" and w: "map lower_char w = needle"
    by (metis map_eq_append_conv)
  with r have t: "t = pre @ w @ post" by simp
  have "list_all2 same_letter w (map lower_char w)"
    by (induction w) (simp_all add: same_letter_lower)
  with w have "case_variant w needle" by (simp add: case_variant_def)
  moreover from t have "str_includes t w" by (auto simp: str_includes_iff)
  ultimately show ?thesis by blast
qed

lemma reply_needles_plain: "list_all (list_all plain) reply_needles"
  by code_simp

lemma messageEvent_dropped:
  "\<not> truthy (msg_text event) \<or> truthy (msg_subtype event) \<or> truthy (msg_bot_id event)
   \<Longrightarrow> messageEvent p event = ([], Inr ())"
  by (cases "msg_text event") (auto simp: messageEvent_def try_catch_def return_io_def)



text \<open>
  C9: a message event whose text is absent or empty makes the message handler return
  at once: the trace is empty (no call at all, not even the channel lookup) and the
  handler resolves.
\<close>

theorem messageEvent_no_text:
  "\<not> truthy (msg_text event) \<Longrightarrow> messageEvent p event = ([], Inr ())"
  by (cases "msg_text event") (simp_all add: messageEvent_def try_catch_def return_io_def)

theorem messageEvent_no_text_witness:
  "\<not> truthy (msg_text ((sample_message ''urgent hello'')\<lparr>msg_text := Some []\<rparr>))
   \<and> messageEvent (sample_platform True)
         ((sample_message ''urgent hello'')\<lparr>msg_text := Some []\<rparr>) = ([], Inr ())"
  using messageEvent_no_text
    [of "(sample_message ''urgent hello'')\<lparr>msg_text := Some []\<rparr>" "sample_platform True"]
  by (simp add: sample_message_def)

text \<open>
  C1: a message event that carries a bot-origin marker (a non-empty \<^verbatim>\<open>bot_id\<close>) or a
  non-empty \<^verbatim>\<open>subtype\<close> makes the message handler return with an empty trace: no
  message posted, no reaction added, no call of any kind.
\<close>

theorem messageEvent_drops_bot_and_subtype:
  "truthy (msg_bot_id event) \<or> truthy (msg_subtype event)
   \<Longrightarrow> messageEvent p event = ([], Inr ())"
  using messageEvent_dropped [of event p] by blast

theorem messageEvent_drops_bot_and_subtype_witness:
  "(truthy (msg_bot_id ((sample_message ''urgent hello'')\<lparr>msg_bot_id := Some ''B1''\<rparr>))
    \<or> truthy (msg_subtype ((sample_message ''urgent hello'')\<lparr>msg_bot_id := Some ''B1''\<rparr>)))
   \<and> messageEvent (sample_platform True)
         ((sample_message ''urgent hello'')\<lparr>msg_bot_id := Some ''B1''\<rparr>) = ([], Inr ())"
  using messageEvent_drops_bot_and_subtype
    [of "(sample_message ''urgent hello'')\<lparr>msg_bot_id := Some ''B1''\<rparr>" "sample_platform True"]
  by (simp add: sample_message_def)

lemma messageEvent_lookup_failed:
  assumes "msg_text event = Some text" "text \<noteq> []"
    "\<not> truthy (msg_subtype event)" "\<not> truthy (msg_bot_id event)"
    "conversations_info p (msg_channel event) = Inl e"
  shows "messageEvent p event =
    ([Call (ConversationsInfo (msg_channel event)) (Some e),
      ConsoleError ''Error handling message event:'' e], Inr ())"
  using assms by (simp add: messageEvent_def io_defs)

text \<open>The reply of the direct-message branch, as the if-chain of the source picks it.\<close>

lemma messageEvent_dm:
  assumes "msg_text event = Some text" "text \<noteq> []"
    "\<not> truthy (msg_subtype event)" "\<not> truthy (msg_bot_id event)"
    "conversations_info p (msg_channel event) = Inr info" "channel_is_im info"
  shows "messageEvent p event =
    (case first_match (dm_rules (msg_user event)) (toLowerCase text) of
       None \<Rightarrow> ([Call (ConversationsInfo (msg_channel event)) None], Inr ())
     | Some reply \<Rightarrow>
         (case say_result p (msg_channel event) (Text reply) (Some (msg_ts event)) of
            Inr u \<Rightarrow>
              ([Call (ConversationsInfo (msg_channel event)) None,
                Call (Say (msg_channel event) (Text reply) (Some (msg_ts event))) None],
               Inr ())
          | Inl e \<Rightarrow>
              ([Call (ConversationsInfo (msg_channel event)) None,
                Call (Say (msg_channel event) (Text reply) (Some (msg_ts event))) (Some e),
                ConsoleError ''Error handling message event:'' e],
               Inr ())))"
  using assms
  by (simp add: messageEvent_def io_defs dm_rules_def Let_def split: sum.splits)


lemma messageEvent_channel:
  assumes "msg_text event = Some text" "text \<noteq> []"
    "\<not> truthy (msg_subtype event)" "\<not> truthy (msg_bot_id event)"
    "conversations_info p (msg_channel event) = Inr info" "\<not> channel_is_im info"
  shows "messageEvent p event =
    (if list_ex (\<lambda>keyword. str_includes (toLowerCase text) keyword) msg_keywords then
       (case reactions_add p (msg_channel event) ''eyes'' (msg_ts event) of
          Inl e \<Rightarrow>
            ([Call (ConversationsInfo (msg_channel event)) None,
              Call (ReactionsAdd (msg_channel event) ''eyes'' (msg_ts event)) (Some e),
              ConsoleError ''Error handling message event:'' e], Inr ())
        | Inr u \<Rightarrow>
            (case reactions_add p (msg_channel event) ''warning'' (msg_ts event) of
               Inl e \<Rightarrow>
                 ([Call (ConversationsInfo (msg_channel event)) None,
                   Call (ReactionsAdd (msg_channel event) ''eyes'' (msg_ts event)) None,
                   Call (ReactionsAdd (msg_channel event) ''warning'' (msg_ts event)) (Some e),
                   ConsoleError ''Error handling message event:'' e], Inr ())
             | Inr u' \<Rightarrow>
                 ([Call (ConversationsInfo (msg_channel event)) None,
                   Call (ReactionsAdd (msg_channel event) ''eyes'' (msg_ts event)) None,
                   Call (ReactionsAdd (msg_channel event) ''warning'' (msg_ts event)) None],
                  Inr ())))
     else ([Call (ConversationsInfo (msg_channel event)) None], Inr ()))"
  using assms
  by (simp add: messageEvent_def io_defs Let_def split: sum.splits)

text \<open>Every run of the message handler has one of four shapes.\<close>

lemma messageEvent_cases:
  obtains
    (dropped) "messageEvent p event = ([], Inr ())"
  | (lookup_failed) t e where "msg_text event = Some t" "t \<noteq> []"
      "\<not> truthy (msg_subtype event)" "\<not> truthy (msg_bot_id event)"
      "conversations_info p (msg_channel event) = Inl e"
  | (dm) t info where "msg_text event = Some t" "t \<noteq> []"
      "\<not> truthy (msg_subtype event)" "\<not> truthy (msg_bot_id event)"
      "conversations_info p (msg_channel event) = Inr info" "channel_is_im info"
  | (channel) t info where "msg_text event = Some t" "t \<noteq> []"
      "\<not> truthy (msg_subtype event)" "\<not> truthy (msg_bot_id event)"
      "conversations_info p (msg_channel event) = Inr info" "\<not> channel_is_im info"
proof (cases "\<not> truthy (msg_text event) \<or> truthy (msg_subtype event) \<or> truthy (msg_bot_id event)")
  case True
  then show ?thesis using messageEvent_dropped dropped by blast
next
  case False
  then obtain s where t: "msg_text event = Some s" "s \<noteq> []"
    by (cases "msg_text event") auto
  from False have g: "\<not> truthy (msg_subtype event)" "\<not> truthy (msg_bot_id event)" by auto
  show ?thesis
  proof (cases "conversations_info p (msg_channel event)")
    case (Inl e)
    then show ?thesis using lookup_failed t g by blast
  next
    case (Inr info)
    then show ?thesis using dm channel t g by (cases "channel_is_im info") blast+
  qed
qed


text \<open>
  C7: for a direct-message event (the channel lookup answers \<^verbatim>\<open>is_im\<close>) that is not
  bot-originated, has no subtype and whose lower-cased text contains "hello", the outbound
  actions of the message handler are exactly one posted message, addressed to the channel
  of the event.
\<close>

theorem dm_hello_one_reply:
  assumes "msg_text event = Some text"
    and "str_includes (toLowerCase text) ''hello''"
    and "\<not> truthy (msg_subtype event)" and "\<not> truthy (msg_bot_id event)"
    and "conversations_info p (msg_channel event) = Inr info" and "channel_is_im info"
  shows "outbound (fst (messageEvent p event)) =
           [Say (msg_channel event) (Text (dm_greeting (msg_user event)))
              (Some (msg_ts event))]"
proof -
  from assms(2) have "text \<noteq> []"
    by auto
  with assms show ?thesis
    by (simp add: messageEvent_def io_defs Let_def outbound_def split: sum.splits)
qed

theorem dm_hello_one_reply_witness:
  "outbound (fst (messageEvent (sample_platform True) (sample_message ''Oh, HeLLo bot''))) =
     [Say ''C1'' (Text (dm_greeting ''U1'')) (Some ''1700000000.000100'')]"
proof -
  have 1: "msg_text (sample_message ''Oh, HeLLo bot'') = Some ''Oh, HeLLo bot''"
    by (simp add: sample_message_def)
  have 2: "str_includes (toLowerCase ''Oh, HeLLo bot'') ''hello''"
    by code_simp
  have 3: "\<not> truthy (msg_subtype (sample_message ''Oh, HeLLo bot''))"
    by (simp add: sample_message_def)
  have 4: "\<not> truthy (msg_bot_id (sample_message ''Oh, HeLLo bot''))"
    by (simp add: sample_message_def)
  have 5: "conversations_info (sample_platform True)
             (msg_channel (sample_message ''Oh, HeLLo bot'')) =
           Inr \<lparr>info_channel = Some \<lparr>is_im = Some True\<rparr>\<rparr>"
    by (simp add: sample_platform_def)
  have 6: "channel_is_im \<lparr>info_channel = Some \<lparr>is_im = Some True\<rparr>\<rparr>"
    by simp
  show ?thesis
    using dm_hello_one_reply [OF 1 2 3 4 5 6] by (simp add: sample_message_def)
qed


lemma appMentionEvent_run:
  "appMentionEvent p event =
     (case first_match (mention_rules (mention_user event)) (toLowerCase (mention_text event)) of
        None \<Rightarrow> ([], Inr ())
      | Some reply \<Rightarrow>
          (case say_result p (mention_channel event) (Text reply) (Some (mention_ts event)) of
             Inr u \<Rightarrow>
               ([Call (Say (mention_channel event) (Text reply) (Some (mention_ts event))) None],
                Inr ())
           | Inl e \<Rightarrow>
               ([Call (Say (mention_channel event) (Text reply) (Some (mention_ts event)))
                   (Some e),
                 ConsoleError ''Error handling app mention:'' e],
                Inr ())))"
  by (simp add: appMentionEvent_def io_defs mention_rules_def Let_def split: sum.splits)

lemma messageEvent_threaded:
  "list_all (threaded_to (msg_ts event)) (fst (messageEvent p event))"
proof (cases p event rule: messageEvent_cases)
  case dropped
  then show ?thesis by simp
next
  case (lookup_failed t e)
  then show ?thesis by (simp add: messageEvent_lookup_failed)
next
  case (dm t info)
  then show ?thesis
    by (simp add: messageEvent_dm split: option.splits sum.splits)
next
  case (channel t info)
  then show ?thesis
    by (simp add: messageEvent_channel split: sum.splits)
qed

lemma appMentionEvent_threaded:
  "list_all (threaded_to (mention_ts event)) (fst (appMentionEvent p event))"
  by (simp add: appMentionEvent_def io_defs Let_def split: sum.splits)

text \<open>
  C10: every message posted by the message handler and by the mention handler has the
  timestamp of the inbound event as its \<^verbatim>\<open>thread_ts\<close>, and every reaction added by the
  message handler targets that timestamp.
\<close>

theorem replies_and_reactions_threaded:
  "list_all (threaded_to (msg_ts event)) (fst (messageEvent p event)) \<and>
   list_all (threaded_to (mention_ts mention)) (fst (appMentionEvent p mention))"
  by (simp add: messageEvent_threaded appMentionEvent_threaded)


theorem replies_and_reactions_threaded_witness:
  "fst (messageEvent (sample_platform False) (sample_message ''This is URGENT'')) =
     [Call (ConversationsInfo ''C1'') None,
      Call (ReactionsAdd ''C1'' ''eyes'' ''1700000000.000100'') None,
      Call (ReactionsAdd ''C1'' ''warning'' ''1700000000.000100'') None] \<and>
   list_all (threaded_to ''1700000000.000100'')
     (fst (messageEvent (sample_platform False) (sample_message ''This is URGENT''))) \<and>
   list_all (threaded_to ''1700000000.000200'')
     (fst (appMentionEvent (sample_platform False) (sample_mention ''<@B1> status'')))"
proof -
  have "fst (messageEvent (sample_platform False) (sample_message ''This is URGENT'')) =
     [Call (ConversationsInfo ''C1'') None,
      Call (ReactionsAdd ''C1'' ''eyes'' ''1700000000.000100'') None,
      Call (ReactionsAdd ''C1'' ''warning'' ''1700000000.000100'') None]"
    by code_simp
  then show ?thesis
    using replies_and_reactions_threaded
      [of "sample_message ''This is URGENT''" "sample_platform False"
          "sample_mention ''<@B1> status''"]
    by (simp add: sample_message_def sample_mention_def)
qed

text \<open>The message handler itself reacts in channels only and replies in direct messages
  only.\<close>

lemma messageEvent_dm_no_reaction:
  assumes "conversations_info p (msg_channel event) = Inr info" "channel_is_im info"
  shows "reactions (fst (messageEvent p event)) = []"
proof (cases p event rule: messageEvent_cases)
  case dropped
  then show ?thesis by (simp add: reactions_def)
next
  case (lookup_failed t e)
  with assms show ?thesis by simp
next
  case (dm t info')
  then show ?thesis
    by (simp add: messageEvent_dm reactions_def split: option.splits sum.splits)
next
  case (channel t info')
  with assms show ?thesis by simp
qed

lemma messageEvent_channel_no_reply:
  assumes "conversations_info p (msg_channel event) = Inr info" "\<not> channel_is_im info"
  shows "replies (fst (messageEvent p event)) = []"
proof (cases p event rule: messageEvent_cases)
  case dropped
  then show ?thesis by (simp add: replies_def)
next
  case (lookup_failed t e)
  with assms show ?thesis by simp
next
  case (dm t info')
  with assms show ?thesis by simp
next
  case (channel t info')
  then show ?thesis
    by (simp add: messageEvent_channel replies_def split: sum.splits)
qed






text \<open>What \<open>first_match\<close> returns is the reply of a rule that matches and that no matching
  rule precedes.\<close>

lemma first_match_Some:
  "first_match rules t = Some reply \<Longrightarrow>
     \<exists>before pred after. rules = before @ (pred, reply) # after \<and> pred t \<and>
       list_all (\<lambda>rule. \<not> fst rule t) before"
proof (induction rules)
  case Nil
  then show ?case by simp
next
  case (Cons rule rules)
  obtain q a where rule: "rule = (q, a)" by (cases rule)
  show ?case
  proof (cases "q t")
    case True
    with Cons.prems rule have "rule # rules = [] @ (q, reply) # rules" by simp
    moreover have "list_all (\<lambda>rule. \<not> fst rule t) []" by simp
    ultimately show ?thesis using True by blast
  next
    case False
    with Cons.prems rule have "first_match rules t = Some reply" by simp
    then obtain before pred after where
      *: "rules = before @ (pred, reply) # after" "pred t"
         "list_all (\<lambda>rule. \<not> fst rule t) before"
      using Cons.IH by blast
    from * False rule have "rule # rules = (rule # before) @ (pred, reply) # after"
      and "list_all (\<lambda>rule. \<not> fst rule t) (rule # before)"
      by simp_all
    with *(2) show ?thesis by blast
  qed
qed

lemma appMentionEvent_replies:
  "replies (fst (appMentionEvent p mention)) =
     (case first_match (mention_rules (mention_user mention))
             (toLowerCase (mention_text mention)) of
        None \<Rightarrow> []
      | Some reply \<Rightarrow>
          [Say (mention_channel mention) (Text reply) (Some (mention_ts mention))])"
  by (simp add: appMentionEvent_run replies_def split: option.splits sum.splits)

lemma messageEvent_dm_replies:
  assumes "msg_text event = Some text" "text \<noteq> []"
    "\<not> truthy (msg_subtype event)" "\<not> truthy (msg_bot_id event)"
    "conversations_info p (msg_channel event) = Inr info" "channel_is_im info"
  shows "replies (fst (messageEvent p event)) =
     (case first_match (dm_rules (msg_user event)) (toLowerCase text) of
        None \<Rightarrow> []
      | Some reply \<Rightarrow> [Say (msg_channel event) (Text reply) (Some (msg_ts event))])"
  using assms
  by (simp add: messageEvent_dm replies_def split: option.splits sum.splits)

lemma messageEvent_one_reply: "length (replies (fst (messageEvent p event))) \<le> 1"
proof (cases p event rule: messageEvent_cases)
  case dropped
  then show ?thesis by (simp add: replies_def)
next
  case (lookup_failed t e)
  then show ?thesis by (simp add: messageEvent_lookup_failed replies_def)
next
  case (dm t info)
  then show ?thesis by (simp add: messageEvent_dm_replies split: option.splits)
next
  case (channel t info)
  then show ?thesis using messageEvent_channel_no_reply [of p event info] by simp
qed

text \<open>
  C6: the replies are what a first-match evaluation of an ordered rule list gives, and
  the match is a case-insensitive substring match. The mention handler posts the reply of
  the first matching rule of \<open>mention_rules\<close> (help, status, thank, then the default); the
  message handler, on a direct message, posts the reply of the first matching rule of
  \<open>dm_rules\<close> (hello or hi, help, how are you) or nothing; either handler posts at most one
  reply; a mention whose text contains both "help" and "status" gets the help reply. The
  rules see the lower-cased text: a text that contains a case variant of a needle matches
  it, and an ASCII text matches a needle only if it contains a case variant of it.
\<close>

theorem reply_rules_first_match:
  "replies (fst (appMentionEvent p mention)) =
     (case first_match (mention_rules (mention_user mention))
             (toLowerCase (mention_text mention)) of
        None \<Rightarrow> []
      | Some reply \<Rightarrow>
          [Say (mention_channel mention) (Text reply) (Some (mention_ts mention))]) \<and>
   (msg_text event = Some s \<and> s \<noteq> [] \<and>
    \<not> truthy (msg_subtype event) \<and> \<not> truthy (msg_bot_id event) \<and>
    conversations_info p (msg_channel event) = Inr info \<and> channel_is_im info
    \<longrightarrow> replies (fst (messageEvent p event)) =
          (case first_match (dm_rules (msg_user event)) (toLowerCase s) of
             None \<Rightarrow> []
           | Some reply \<Rightarrow> [Say (msg_channel event) (Text reply) (Some (msg_ts event))])) \<and>
   length (replies (fst (appMentionEvent p mention))) \<le> 1 \<and>
   length (replies (fst (messageEvent p event))) \<le> 1 \<and>
   (str_includes (toLowerCase (mention_text mention)) ''help'' \<and>
    str_includes (toLowerCase (mention_text mention)) ''status''
    \<longrightarrow> replies (fst (appMentionEvent p mention)) =
          [Say (mention_channel mention) (Text (mention_help (mention_user mention)))
             (Some (mention_ts mention))]) \<and>
   (needle \<in> set reply_needles \<and> case_variant w needle \<and> str_includes t w
    \<longrightarrow> str_includes (toLowerCase t) needle) \<and>
   (list_all is_ascii t \<and> str_includes (toLowerCase t) needle
    \<longrightarrow> (\<exists>v. case_variant v needle \<and> str_includes t v))"
proof -
  have "length (replies (fst (appMentionEvent p mention))) \<le> 1"
    by (simp add: appMentionEvent_replies split: option.splits)
  moreover have "str_includes (toLowerCase (mention_text mention)) ''help''
    \<longrightarrow> replies (fst (appMentionEvent p mention)) =
          [Say (mention_channel mention) (Text (mention_help (mention_user mention)))
             (Some (mention_ts mention))]"
    by (simp add: appMentionEvent_replies mention_rules_def)
  moreover have "needle \<in> set reply_needles \<and> case_variant w needle \<and> str_includes t w
    \<longrightarrow> str_includes (toLowerCase t) needle"
    using reply_needles_plain case_variant_found [of needle w t]
    by (auto simp: list_all_iff)
  moreover have "list_all is_ascii t \<and> str_includes (toLowerCase t) needle
    \<longrightarrow> (\<exists>v. case_variant v needle \<and> str_includes t v)"
    using ascii_text_found [of t needle] by blast
  ultimately show ?thesis
    using appMentionEvent_replies [of p mention]
      messageEvent_dm_replies [of event s p info]
      messageEvent_one_reply [of p event]
    by simp
qed

theorem reply_rules_first_match_witness:
  "replies (fst (appMentionEvent (sample_platform True)
                   (sample_mention ''<@B1> what is your STATUS? HELP!''))) =
     [Say ''C1'' (Text (mention_help ''U2'')) (Some ''1700000000.000200'')] \<and>
   replies (fst (messageEvent (sample_platform True)
                   (sample_message ''How Are You? I need HELP''))) =
     [Say ''C1'' (Text dm_help) (Some ''1700000000.000100'')] \<and>
   replies (fst (appMentionEvent (sample_platform True)
                   (sample_mention (''<@B1> THAN'' @ kelvin_sign @ ''S'')))) =
     [Say ''C1'' (Text (mention_thanks ''U2'')) (Some ''1700000000.000200'')]"
proof -
  let ?mention = "sample_mention ''<@B1> what is your STATUS? HELP!''"
  let ?kelvin = "sample_mention (''<@B1> THAN'' @ kelvin_sign @ ''S'')"
  let ?event = "sample_message ''How Are You? I need HELP''"
  let ?info = "\<lparr>info_channel = Some \<lparr>is_im = Some True\<rparr>\<rparr>"
  note r = reply_rules_first_match
    [where p = "sample_platform True" and mention = ?mention and event = ?event
       and s = "''How Are You? I need HELP''" and info = ?info
       and t = "mention_text ?mention"]
  have v: "''help'' \<in> set reply_needles" "case_variant ''HELP'' ''help''"
    "str_includes (mention_text ?mention) ''HELP''"
    "''status'' \<in> set reply_needles" "case_variant ''STATUS'' ''status''"
    "str_includes (mention_text ?mention) ''STATUS''"
    by code_simp+
  have m: "str_includes (toLowerCase (mention_text ?mention)) ''help''"
    "str_includes (toLowerCase (mention_text ?mention)) ''status''"
    using r [where needle = "''help''" and w = "''HELP''"]
      r [where needle = "''status''" and w = "''STATUS''"] v
    by blast+
  have a: "replies (fst (appMentionEvent (sample_platform True) ?mention)) =
          [Say (mention_channel ?mention) (Text (mention_help (mention_user ?mention)))
             (Some (mention_ts ?mention))]"
    using r [where needle = "''help''" and w = "''HELP''"] m by blast
  have e: "msg_text ?event = Some ''How Are You? I need HELP''"
    "\<not> truthy (msg_subtype ?event)" "\<not> truthy (msg_bot_id ?event)"
    "conversations_info (sample_platform True) (msg_channel ?event) = Inr ?info"
    "channel_is_im ?info"
    by (simp_all add: sample_message_def sample_platform_def)
  have n: "''How Are You? I need HELP'' \<noteq> []"
    by simp
  have b: "replies (fst (messageEvent (sample_platform True) ?event)) =
          (case first_match (dm_rules (msg_user ?event))
                  (toLowerCase ''How Are You? I need HELP'') of
             None \<Rightarrow> []
           | Some reply \<Rightarrow> [Say (msg_channel ?event) (Text reply) (Some (msg_ts ?event))])"
    using r [where needle = "''help''" and w = "''HELP''"] e n by blast
  have d: "first_match (dm_rules (msg_user ?event)) (toLowerCase ''How Are You? I need HELP'') =
             Some dm_help"
    by code_simp
  have k: "replies (fst (appMentionEvent (sample_platform True) ?kelvin)) =
          (case first_match (mention_rules (mention_user ?kelvin))
                  (toLowerCase (mention_text ?kelvin)) of
             None \<Rightarrow> []
           | Some reply \<Rightarrow>
               [Say (mention_channel ?kelvin) (Text reply) (Some (mention_ts ?kelvin))])"
    using reply_rules_first_match
      [where p = "sample_platform True" and mention = ?kelvin and event = ?event
         and s = "''How Are You? I need HELP''" and info = ?info
         and t = "[]" and needle = "[]" and w = "[]"]
    by blast
  have kd: "first_match (mention_rules (mention_user ?kelvin))
              (toLowerCase (mention_text ?kelvin)) = Some (mention_thanks ''U2'')"
    by code_simp
  show ?thesis
    unfolding a b d k kd by (simp add: sample_message_def sample_mention_def)
qed

lemma mention_status_text:
  "str_includes (mention_status user) ''online'' \<and>
   str_includes (mention_status user) (''<@'' @ user @ ''>'')"
proof -
  have "mention_status user =
          (''I'' @ [CHR 0x27] @ ''m '') @ ''online'' @
          ('' and ready to help, <@'' @ user @ ''>! '' @ green_circle)"
    by (simp add: mention_status_def)
  then have "str_includes (mention_status user) ''online''"
    using str_includes_middle by metis
  moreover have "mention_status user =
          (''I'' @ [CHR 0x27] @ ''m online and ready to help, '') @
          (''<@'' @ user @ ''>'') @ (''! '' @ green_circle)"
    by (simp add: mention_status_def)
  then have "str_includes (mention_status user) (''<@'' @ user @ ''>'')"
    using str_includes_middle by metis
  ultimately show ?thesis by simp
qed

text \<open>
  C8: for a mention whose lower-cased text contains "status" and not the earlier keyword
  "help", the mention handler makes exactly one call, a reply in the thread of the event,
  whose text contains "online" and mentions the sender (\<open><@U2>\<close> for user U2).
\<close>

theorem mention_status_reply:
  assumes "str_includes (toLowerCase (mention_text event)) ''status''"
    and "\<not> str_includes (toLowerCase (mention_text event)) ''help''"
  shows "calls (fst (appMentionEvent p event)) =
           [Say (mention_channel event) (Text (mention_status (mention_user event)))
              (Some (mention_ts event))] \<and>
         str_includes (mention_status (mention_user event)) ''online'' \<and>
         str_includes (mention_status (mention_user event))
           (''<@'' @ mention_user event @ ''>'')"
  using assms mention_status_text [of "mention_user event"]
  by (simp add: appMentionEvent_run mention_rules_def split: sum.splits)

theorem mention_status_reply_witness:
  "calls (fst (appMentionEvent (sample_platform False) (sample_mention ''@bot status''))) =
     [Say ''C1'' (Text (mention_status ''U2'')) (Some ''1700000000.000200'')] \<and>
   str_includes (mention_status ''U2'') ''online'' \<and>
   str_includes (mention_status ''U2'') ''<@U2>''"
proof -
  have h1: "str_includes (toLowerCase (mention_text (sample_mention ''@bot status''))) ''status''"
    by code_simp
  have h2: "\<not> str_includes (toLowerCase (mention_text (sample_mention ''@bot status''))) ''help''"
    by code_simp
  show ?thesis
    using mention_status_reply [OF h1 h2, of "sample_platform False"]
    by (simp add: sample_mention_def)
qed


lemma open_modal_run:
  assumes "ack_result p = Inr ()"
  shows "createTaskShortcut p body =
           (case views_open p (body_trigger_id body) task_modal of
              Inr u \<Rightarrow>
                ([Call Ack None, Call (ViewsOpen (body_trigger_id body) task_modal) None],
                 Inr ())
            | Inl e \<Rightarrow>
                ([Call Ack None, Call (ViewsOpen (body_trigger_id body) task_modal) (Some e),
                  ConsoleError ''Error opening task modal:'' e], Inr ()))"
    and "viewHelpAction p body =
           (case views_open p (body_trigger_id body) help_modal of
              Inr u \<Rightarrow>
                ([Call Ack None, Call (ViewsOpen (body_trigger_id body) help_modal) None],
                 Inr ())
            | Inl e \<Rightarrow>
                ([Call Ack None, Call (ViewsOpen (body_trigger_id body) help_modal) (Some e),
                  ConsoleError ''Error opening help modal:'' e], Inr ()))"
  using assms
  by (simp_all add: createTaskShortcut_def viewHelpAction_def io_defs split: sum.splits)

text \<open>
  C3 (as amended): the shortcut and the button handler validate nothing. Once the
  acknowledgement has succeeded each of them makes exactly one \<^verbatim>\<open>views.open\<close> call, which
  carries the trigger id of the event as it is, empty or not. If the platform rejects the
  call, the failure is caught and logged, and nothing else is done; the handler resolves
  whatever the platform answers.
\<close>

theorem open_modal_trigger_unchecked:
  "ack_result p = Inr () \<Longrightarrow>
     calls (fst (createTaskShortcut p body)) =
       [Ack, ViewsOpen (body_trigger_id body) task_modal] \<and>
     calls (fst (viewHelpAction p body)) =
       [Ack, ViewsOpen (body_trigger_id body) help_modal] \<and>
     snd (createTaskShortcut p body) = Inr () \<and> snd (viewHelpAction p body) = Inr () \<and>
     fst (createTaskShortcut p body) =
       [Call Ack None,
        Call (ViewsOpen (body_trigger_id body) task_modal)
          (outcome (views_open p (body_trigger_id body) task_modal))] @
       (case views_open p (body_trigger_id body) task_modal of
          Inl e \<Rightarrow> [ConsoleError ''Error opening task modal:'' e]
        | Inr u \<Rightarrow> []) \<and>
     fst (viewHelpAction p body) =
       [Call Ack None,
        Call (ViewsOpen (body_trigger_id body) help_modal)
          (outcome (views_open p (body_trigger_id body) help_modal))] @
       (case views_open p (body_trigger_id body) help_modal of
          Inl e \<Rightarrow> [ConsoleError ''Error opening help modal:'' e]
        | Inr u \<Rightarrow> [])"
  by (simp add: open_modal_run split: sum.splits)

theorem open_modal_trigger_unchecked_witness:
  "fst (createTaskShortcut (sample_platform False) \<lparr>body_trigger_id = []\<rparr>) =
     [Call Ack None,
      Call (ViewsOpen [] task_modal) (Some (Error ''invalid_arguments'')),
      ConsoleError ''Error opening task modal:'' (Error ''invalid_arguments'')] \<and>
   snd (createTaskShortcut (sample_platform False) \<lparr>body_trigger_id = []\<rparr>) = Inr () \<and>
   fst (viewHelpAction (sample_platform False) \<lparr>body_trigger_id = ''T1''\<rparr>) =
     [Call Ack None, Call (ViewsOpen ''T1'' help_modal) None]"
proof -
  have a: "ack_result (sample_platform False) = Inr ()"
    by (simp add: sample_platform_def)
  have v: "views_open (sample_platform False) [] task_modal = Inl (Error ''invalid_arguments'')"
    "views_open (sample_platform False) ''T1'' help_modal = Inr ()"
    by (simp_all add: sample_platform_def)
  show ?thesis
    using open_modal_trigger_unchecked [OF a, of "\<lparr>body_trigger_id = []\<rparr>"]
      open_modal_trigger_unchecked [OF a, of "\<lparr>body_trigger_id = ''T1''\<rparr>"] v
    by simp
qed

text \<open>
  C3 as stated fails: with an empty trigger id both handlers still send the
  \<^verbatim>\<open>views.open\<close> call; it is the platform that rejects it, and the handler logs that.
\<close>

theorem open_modal_sent_with_empty_trigger:
  "createTaskShortcut (sample_platform False) \<lparr>body_trigger_id = []\<rparr> =
     ([Call Ack None,
       Call (ViewsOpen [] task_modal) (Some (Error ''invalid_arguments'')),
       ConsoleError ''Error opening task modal:'' (Error ''invalid_arguments'')], Inr ()) \<and>
   viewHelpAction (sample_platform False) \<lparr>body_trigger_id = []\<rparr> =
     ([Call Ack None,
       Call (ViewsOpen [] help_modal) (Some (Error ''invalid_arguments'')),
       ConsoleError ''Error opening help modal:'' (Error ''invalid_arguments'')], Inr ())"
  by (simp add: open_modal_run sample_platform_def)


lemma messageEvent_failure:
  "snd (messageEvent p event) = Inr () \<and>
   (case after_failure (fst (messageEvent p event)) of
      None \<Rightarrow> True
    | Some (e, rest) \<Rightarrow> rest = [ConsoleError ''Error handling message event:'' e])"
proof (cases p event rule: messageEvent_cases)
  case dropped
  then show ?thesis by simp
next
  case (lookup_failed t e)
  then show ?thesis by (simp add: messageEvent_lookup_failed)
next
  case (dm t info)
  then show ?thesis
    by (simp add: messageEvent_dm split: option.splits sum.splits)
next
  case (channel t info)
  then show ?thesis
    by (simp add: messageEvent_channel split: sum.splits)
qed

lemma appMentionEvent_failure:
  "snd (appMentionEvent p mention) = Inr () \<and>
   (case after_failure (fst (appMentionEvent p mention)) of
      None \<Rightarrow> True
    | Some (e, rest) \<Rightarrow> rest = [ConsoleError ''Error handling app mention:'' e])"
  by (simp add: appMentionEvent_def io_defs Let_def split: sum.splits)

lemma helloCommand_run:
  assumes "ack_result p = Inr ()"
  shows "helloCommand p command =
     (case users_info p (cmd_user_id command) of
        Inl e \<Rightarrow>
          ([Call Ack None, Call (UsersInfo (cmd_user_id command)) (Some e),
            ConsoleError ''Error in hello command:'' e,
            Call (Say (cmd_channel_id command) (Text hello_sorry) None)
              (outcome (say_result p (cmd_channel_id command) (Text hello_sorry) None))],
           say_result p (cmd_channel_id command) (Text hello_sorry) None)
      | Inr userInfo \<Rightarrow>
          (case say_result p (cmd_channel_id command)
                  (Blocks (hello_blocks (userName_of userInfo) command)) None of
             Inl e \<Rightarrow>
               ([Call Ack None, Call (UsersInfo (cmd_user_id command)) None,
                 Call (Say (cmd_channel_id command)
                         (Blocks (hello_blocks (userName_of userInfo) command)) None) (Some e),
                 ConsoleError ''Error in hello command:'' e,
                 Call (Say (cmd_channel_id command) (Text hello_sorry) None)
                   (outcome (say_result p (cmd_channel_id command) (Text hello_sorry) None))],
                say_result p (cmd_channel_id command) (Text hello_sorry) None)
           | Inr u \<Rightarrow>
               ([Call Ack None, Call (UsersInfo (cmd_user_id command)) None,
                 Call (Say (cmd_channel_id command)
                         (Blocks (hello_blocks (userName_of userInfo) command)) None) None],
                Inr ())))"
  using assms
  by (simp add: helloCommand_def io_defs Let_def split: sum.splits)

lemma helloCommand_failure:
  assumes "ack_result p = Inr ()"
  shows "case after_failure (fst (helloCommand p command)) of
      None \<Rightarrow> True
    | Some (e, rest) \<Rightarrow>
        rest = [ConsoleError ''Error in hello command:'' e,
                Call (Say (cmd_channel_id command) (Text hello_sorry) None)
                  (outcome (say_result p (cmd_channel_id command) (Text hello_sorry) None))]"
  by (simp add: helloCommand_run [OF assms] split: sum.splits)

lemma open_modal_failure:
  assumes "ack_result p = Inr ()"
  shows "case after_failure (fst (createTaskShortcut p body)) of
      None \<Rightarrow> True
    | Some (e, rest) \<Rightarrow> rest = [ConsoleError ''Error opening task modal:'' e]"
    and "case after_failure (fst (viewHelpAction p body)) of
      None \<Rightarrow> True
    | Some (e, rest) \<Rightarrow> rest = [ConsoleError ''Error opening help modal:'' e]"
    and "snd (createTaskShortcut p body) = Inr ()"
    and "snd (viewHelpAction p body) = Inr ()"
  by (simp_all add: open_modal_run [OF assms] split: sum.splits)

text \<open>
  C4 (as amended): what each handler does after the first platform call that fails.
  The message and the mention handler (passive) log the error and do nothing else, and
  they always resolve. Once the acknowledgement has succeeded, the hello command logs the
  error and then attempts exactly one apology message; the shortcut and the button handler
  that open a modal log the error, attempt no user notice, and resolve.
\<close>

theorem failures_logged:
  "snd (messageEvent p event) = Inr () \<and>
   (case after_failure (fst (messageEvent p event)) of
      None \<Rightarrow> True
    | Some (e, rest) \<Rightarrow> rest = [ConsoleError ''Error handling message event:'' e]) \<and>
   snd (appMentionEvent p mention) = Inr () \<and>
   (case after_failure (fst (appMentionEvent p mention)) of
      None \<Rightarrow> True
    | Some (e, rest) \<Rightarrow> rest = [ConsoleError ''Error handling app mention:'' e]) \<and>
   (ack_result p = Inr () \<longrightarrow>
      (case after_failure (fst (helloCommand p command)) of
         None \<Rightarrow> True
       | Some (e, rest) \<Rightarrow>
           rest = [ConsoleError ''Error in hello command:'' e,
                   Call (Say (cmd_channel_id command) (Text hello_sorry) None)
                     (outcome (say_result p (cmd_channel_id command) (Text hello_sorry) None))]) \<and>
      (case after_failure (fst (createTaskShortcut p body)) of
         None \<Rightarrow> True
       | Some (e, rest) \<Rightarrow> rest = [ConsoleError ''Error opening task modal:'' e]) \<and>
      snd (createTaskShortcut p body) = Inr () \<and>
      (case after_failure (fst (viewHelpAction p body)) of
         None \<Rightarrow> True
       | Some (e, rest) \<Rightarrow> rest = [ConsoleError ''Error opening help modal:'' e]) \<and>
      snd (viewHelpAction p body) = Inr ())"
  using messageEvent_failure [of p event] appMentionEvent_failure [of p mention]
    helloCommand_failure [of p command] open_modal_failure [of p body]
  by blast

theorem failures_logged_witness:
  "after_failure (fst (messageEvent down_platform (sample_message ''This is URGENT''))) =
     Some (Error ''service_unavailable'',
           [ConsoleError ''Error handling message event:'' (Error ''service_unavailable'')]) \<and>
   after_failure (fst (appMentionEvent down_platform (sample_mention ''@bot status''))) =
     Some (Error ''service_unavailable'',
           [ConsoleError ''Error handling app mention:'' (Error ''service_unavailable'')]) \<and>
   after_failure (fst (helloCommand down_platform sample_command)) =
     Some (Error ''service_unavailable'',
           [ConsoleError ''Error in hello command:'' (Error ''service_unavailable''),
            Call (Say ''C1'' (Text hello_sorry) None) (Some (Error ''service_unavailable''))]) \<and>
   after_failure (fst (viewHelpAction down_platform \<lparr>body_trigger_id = ''T1''\<rparr>)) =
     Some (Error ''service_unavailable'',
           [ConsoleError ''Error opening help modal:'' (Error ''service_unavailable'')])"
proof -
  have a: "ack_result down_platform = Inr ()"
    by (simp add: down_platform_def)
  have m: "fst (the (after_failure (fst (messageEvent down_platform
             (sample_message ''This is URGENT''))))) = Error ''service_unavailable'' \<and>
           after_failure (fst (messageEvent down_platform
             (sample_message ''This is URGENT''))) \<noteq> None"
    by code_simp
  have n: "fst (the (after_failure (fst (appMentionEvent down_platform
             (sample_mention ''@bot status''))))) = Error ''service_unavailable'' \<and>
           after_failure (fst (appMentionEvent down_platform
             (sample_mention ''@bot status''))) \<noteq> None"
    by code_simp
  have h: "fst (the (after_failure (fst (helloCommand down_platform sample_command)))) =
             Error ''service_unavailable'' \<and>
           after_failure (fst (helloCommand down_platform sample_command)) \<noteq> None"
    by code_simp
  have v: "fst (the (after_failure (fst (viewHelpAction down_platform
             \<lparr>body_trigger_id = ''T1''\<rparr>)))) = Error ''service_unavailable'' \<and>
           after_failure (fst (viewHelpAction down_platform
             \<lparr>body_trigger_id = ''T1''\<rparr>)) \<noteq> None"
    by code_simp
  have s: "outcome (say_result down_platform (cmd_channel_id sample_command)
             (Text hello_sorry) None) = Some (Error ''service_unavailable'')"
    "cmd_channel_id sample_command = ''C1''"
    by (simp_all add: down_platform_def sample_command_def)
  show ?thesis
    using failures_logged
      [of down_platform "sample_message ''This is URGENT''" "sample_mention ''@bot status''"
          sample_command "\<lparr>body_trigger_id = ''T1''\<rparr>"]
      a m n h v s
    by (auto split: option.splits)
qed

text \<open>
  C4 as stated fails: when \<^verbatim>\<open>views.open\<close> fails in the button handler, a user-initiated
  variant, the error is logged and no user-facing notice is attempted.
\<close>

theorem button_failure_without_notice:
  "viewHelpAction down_platform \<lparr>body_trigger_id = ''T1''\<rparr> =
     ([Call Ack None,
       Call (ViewsOpen ''T1'' help_modal) (Some (Error ''service_unavailable'')),
       ConsoleError ''Error opening help modal:'' (Error ''service_unavailable'')], Inr ()) \<and>
   replies (fst (viewHelpAction down_platform \<lparr>body_trigger_id = ''T1''\<rparr>)) = []"
  by (simp add: open_modal_run down_platform_def replies_def)

text \<open>The ping command catches nothing: a failed call rejects the handler, unlogged.\<close>

lemma pingCommand_failure_not_caught:
  assumes "ack_result p = Inr ()"
    and "say_result p (cmd_channel_id command)
           (Blocks (ping_blocks (ackedAt - startTime) command)) None = Inl e"
  shows "pingCommand p startTime ackedAt command =
           ([Call Ack None,
             Call (Say (cmd_channel_id command)
                     (Blocks (ping_blocks (ackedAt - startTime) command)) None) (Some e)],
            Inl e)"
  using assms by (simp add: pingCommand_def io_defs Let_def)

lemma hello_blocks_contents:
  "message_contains (Blocks (hello_blocks userName command)) userName \<and>
   message_contains (Blocks (hello_blocks userName command)) (cmd_channel_id command) \<and>
   (cmd_text command = [] \<longrightarrow>
      message_contains (Blocks (hello_blocks userName command)) ''none'')"
proof -
  have "str_includes (''Hello *'' @ userName @ ''*! '' @ wave) userName"
    by (rule str_includes_middle)
  moreover have
    "str_includes (''You called the `/hello` command from <#'' @ cmd_channel_id command @ ''>'')
       (cmd_channel_id command)"
    by (rule str_includes_middle)
  moreover have
    "str_includes (''_Command text: '' @ [CHR 0x22] @ ''none'' @ [CHR 0x22] @ ''_'') ''none''"
    using str_includes_middle [of "''_Command text: '' @ [CHR 0x22]" "''none''" "[CHR 0x22] @ ''_''"]
    by simp
  ultimately show ?thesis
    by (simp add: message_contains_def hello_blocks_def)
qed

text \<open>
  C5 (as amended): for the hello command invoked with empty command text, when the
  acknowledgement, the user lookup and the post succeed, the handler makes exactly three
  calls: the acknowledgement, the lookup of the invoking user, and one message post to the
  channel of the command. The content of that message contains the name the lookup gave
  (real name, else name, else "there"), the channel id and the word "none"; the user id
  goes into the lookup, not into the message.
\<close>

theorem hello_one_message:
  assumes "ack_result p = Inr ()"
    and "cmd_text command = []"
    and "users_info p (cmd_user_id command) = Inr userInfo"
    and "say_result p (cmd_channel_id command)
           (Blocks (hello_blocks (userName_of userInfo) command)) None = Inr ()"
  shows "calls (fst (helloCommand p command)) =
           [Ack, UsersInfo (cmd_user_id command),
            Say (cmd_channel_id command)
              (Blocks (hello_blocks (userName_of userInfo) command)) None] \<and>
         message_contains (Blocks (hello_blocks (userName_of userInfo) command))
           (userName_of userInfo) \<and>
         message_contains (Blocks (hello_blocks (userName_of userInfo) command))
           (cmd_channel_id command) \<and>
         message_contains (Blocks (hello_blocks (userName_of userInfo) command)) ''none''"
  using assms hello_blocks_contents [of "userName_of userInfo" command]
  by (simp add: helloCommand_run)

theorem hello_one_message_witness:
  "calls (fst (helloCommand (sample_platform False) sample_command)) =
     [Ack, UsersInfo ''U1'', Say ''C1'' (Blocks (hello_blocks ''Alice Kim'' sample_command)) None] \<and>
   message_contains (Blocks (hello_blocks ''Alice Kim'' sample_command)) ''Alice Kim'' \<and>
   message_contains (Blocks (hello_blocks ''Alice Kim'' sample_command)) ''C1'' \<and>
   message_contains (Blocks (hello_blocks ''Alice Kim'' sample_command)) ''none''"
proof -
  let ?info = "\<lparr>info_user = Some \<lparr>real_name = Some ''Alice Kim'', name = Some ''alice''\<rparr>\<rparr>"
  have a: "ack_result (sample_platform False) = Inr ()"
    by (simp add: sample_platform_def)
  have t: "cmd_text sample_command = []"
    by (simp add: sample_command_def)
  have u: "users_info (sample_platform False) (cmd_user_id sample_command) = Inr ?info"
    by (simp add: sample_platform_def)
  have s: "say_result (sample_platform False) (cmd_channel_id sample_command)
             (Blocks (hello_blocks (userName_of ?info) sample_command)) None = Inr ()"
    by (simp add: sample_platform_def)
  have n: "userName_of ?info = ''Alice Kim''"
    by (simp add: userName_of_def)
  have c: "cmd_user_id sample_command = ''U1''" "cmd_channel_id sample_command = ''C1''"
    by (simp_all add: sample_command_def)
  show ?thesis
    using hello_one_message [OF a t u s] unfolding n c by simp
qed

text \<open>
  C5 as stated fails: the message posted for user U1 greets the name found by the lookup
  and does not contain "U1".
\<close>

theorem hello_message_lacks_user_id:
  "calls (fst (helloCommand (sample_platform False) sample_command)) =
     [Ack, UsersInfo ''U1'', Say ''C1'' (Blocks (hello_blocks ''Alice Kim'' sample_command)) None] \<and>
   cmd_user_id sample_command = ''U1'' \<and> cmd_text sample_command = [] \<and>
   \<not> message_contains (Blocks (hello_blocks ''Alice Kim'' sample_command)) ''U1''"
  by code_simp

end
